theory Spec2Isabelle
  imports Main "HOL-Library.Sublist"
begin

section \<open>Strings and the literals of \<open>app.py\<close>\<close>

text \<open>
  A Python \<open>str\<close> is modelled by its UTF-8 encoding, a \<open>string\<close> of bytes. The
  functions of \<open>os.path\<close> used by the handler only look for the ASCII characters
  \<open>/\<close> and \<open>.\<close>, and concatenation commutes with the encoding, so nothing below
  depends on how many bytes a code point takes. The four Korean literals of the
  source are written out byte by byte.
\<close>

definition detail_not_loaded :: string where
  \<comment> \<open>line 85, "the model has not been loaded yet."\<close>
  "detail_not_loaded =
    [CHR 0xEB, CHR 0xAA, CHR 0xA8, CHR 0xEB, CHR 0x8D, CHR 0xB8, CHR 0xEC, CHR 0x9D,
     CHR 0xB4, CHR 0x20, CHR 0xEC, CHR 0x95, CHR 0x84, CHR 0xEC, CHR 0xA7, CHR 0x81,
     CHR 0x20, CHR 0xEB, CHR 0xA1, CHR 0x9C, CHR 0xEB, CHR 0x93, CHR 0x9C, CHR 0xEB,
     CHR 0x90, CHR 0x98, CHR 0xEC, CHR 0xA7, CHR 0x80, CHR 0x20, CHR 0xEC, CHR 0x95,
     CHR 0x8A, CHR 0xEC, CHR 0x95, CHR 0x98, CHR 0xEC, CHR 0x8A, CHR 0xB5, CHR 0xEB,
     CHR 0x8B, CHR 0x88, CHR 0xEB, CHR 0x8B, CHR 0xA4, CHR 0x2E]"

definition detail_generation_failed :: string where
  \<comment> \<open>line 132, "video generation failed."\<close>
  "detail_generation_failed =
    [CHR 0xEB, CHR 0xB9, CHR 0x84, CHR 0xEB, CHR 0x94, CHR 0x94, CHR 0xEC, CHR 0x98,
     CHR 0xA4, CHR 0x20, CHR 0xEC, CHR 0x83, CHR 0x9D, CHR 0xEC, CHR 0x84, CHR 0xB1,
     CHR 0xEC, CHR 0x97, CHR 0x90, CHR 0x20, CHR 0xEC, CHR 0x8B, CHR 0xA4, CHR 0xED,
     CHR 0x8C, CHR 0xA8, CHR 0xED, CHR 0x96, CHR 0x88, CHR 0xEC, CHR 0x8A, CHR 0xB5,
     CHR 0xEB, CHR 0x8B, CHR 0x88, CHR 0xEB, CHR 0x8B, CHR 0xA4, CHR 0x2E]"

definition detail_error_prefix :: string where
  \<comment> \<open>line 142, "error during inference: "\<close>
  "detail_error_prefix =
    [CHR 0xEC, CHR 0xB6, CHR 0x94, CHR 0xEB, CHR 0xA1, CHR 0xA0, CHR 0x20, CHR 0xEC,
     CHR 0xA4, CHR 0x91, CHR 0x20, CHR 0xEC, CHR 0x98, CHR 0xA4, CHR 0xEB, CHR 0xA5,
     CHR 0x98, CHR 0x20, CHR 0xEB, CHR 0xB0, CHR 0x9C, CHR 0xEC, CHR 0x83, CHR 0x9D,
     CHR 0x3A, CHR 0x20]"

definition log_cleanup_prefix :: string where
  \<comment> \<open>line 149, "failed to delete the temporary directory: "\<close>
  "log_cleanup_prefix =
    [CHR 0xEC, CHR 0x9E, CHR 0x84, CHR 0xEC, CHR 0x8B, CHR 0x9C, CHR 0x20, CHR 0xEB,
     CHR 0x94, CHR 0x94, CHR 0xEB, CHR 0xA0, CHR 0x89, CHR 0xED, CHR 0x86, CHR 0xA0,
     CHR 0xEB, CHR 0xA6, CHR 0xAC, CHR 0x20, CHR 0xEC, CHR 0x82, CHR 0xAD, CHR 0xEC,
     CHR 0xA0, CHR 0x9C, CHR 0x20, CHR 0xEC, CHR 0x8B, CHR 0xA4, CHR 0xED, CHR 0x8C,
     CHR 0xA8, CHR 0x3A, CHR 0x20]"

text \<open>\<open>str\<close> of a Python \<open>int\<close>: decimal digits, with a minus sign below zero.\<close>

fun str_nat :: "nat \<Rightarrow> string" where
  "str_nat n =
     (if n < 10 then [''0123456789'' ! n]
      else str_nat (n div 10) @ [''0123456789'' ! (n mod 10)])"

declare str_nat.simps [simp del]

definition str_int :: "int \<Rightarrow> string" where
  "str_int i = (if i < 0 then CHR ''-'' # str_nat (nat (- i)) else str_nat (nat i))"

text \<open>\<open>str.rfind\<close> with a one-character needle: the highest index, or \<open>-1\<close>.\<close>

fun rfind_from :: "char \<Rightarrow> string \<Rightarrow> int \<Rightarrow> int \<Rightarrow> int" where
  "rfind_from c [] i found = found"
| "rfind_from c (x # xs) i found = rfind_from c xs (i + 1) (if x = c then i else found)"

definition rfind :: "string \<Rightarrow> char \<Rightarrow> int" where
  "rfind p c = rfind_from c p 0 (- 1)"

section \<open>\<open>posixpath\<close>: join, splitext, basename\<close>

text \<open>
  \<open>posixpath.join(a, b)\<close> with one component \<open>b\<close>, as the handler calls it: an
  absolute \<open>b\<close> replaces \<open>a\<close>; otherwise a separator is inserted unless \<open>a\<close> is empty
  or already ends with one.
\<close>

definition path_join :: "string \<Rightarrow> string \<Rightarrow> string" where
  "path_join a b =
     (if take 1 b = ''/'' then b
      else if a = [] \<or> (a \<noteq> [] \<and> last a = CHR ''/'') then a @ b
      else a @ ''/'' @ b)"

text \<open>
  \<open>genericpath._splitext(p, '/', None, '.')\<close>: the extension starts at the last dot
  of the last component, and leading dots of that component do not count. The
  \<open>while\<close> loop that skips the leading dots is \<open>skip_dots\<close>.
\<close>

function skip_dots :: "string \<Rightarrow> nat \<Rightarrow> nat \<Rightarrow> (string \<times> string) option" where
  "skip_dots p filenameIndex dotIndex =
     (if filenameIndex < dotIndex then
        (if take 1 (drop filenameIndex p) \<noteq> ''.''
         then Some (take dotIndex p, drop dotIndex p)
         else skip_dots p (filenameIndex + 1) dotIndex)
      else None)"
  by pat_completeness auto
termination
  by (relation "measure (\<lambda>(p, filenameIndex, dotIndex). dotIndex - filenameIndex)") auto

declare skip_dots.simps [simp del]

definition splitext :: "string \<Rightarrow> string \<times> string" where
  "splitext p =
     (let sepIndex = rfind p CHR ''/'';
          dotIndex = rfind p CHR ''.''
      in if dotIndex > sepIndex then
           (case skip_dots p (nat (sepIndex + 1)) (nat dotIndex) of
              Some r \<Rightarrow> r
            | None \<Rightarrow> (p, []))
         else (p, []))"

definition basename :: "string \<Rightarrow> string" where
  "basename p = drop (nat (rfind p CHR ''/'' + 1)) p"

section \<open>Exceptions\<close>

text \<open>
  The values of this type are the instances of Python's \<open>Exception\<close> class that the
  model can raise: the class named by both \<open>except\<close> clauses of the handler.
  \<open>HTTPException\<close> is FastAPI's (a subclass of \<open>Exception\<close>), which the framework
  turns into a JSON response with that status code and \<open>{"detail": ...}\<close> as body.
  The operating-system errors carry the file name of the failing call (the path it
  was given; for the traversal of \<open>rmtree\<close>, the name of the entry that could not be
  removed), \<open>ValueError\<close> and \<open>Exception\<close> their message. Signals that are not instances of \<open>Exception\<close>
  (\<open>KeyboardInterrupt\<close>, \<open>SystemExit\<close>) end the process, not the request, and are
  not modelled.
\<close>

datatype exn =
    HTTPException (status_code: nat) (detail: string)
  | FileNotFoundError string
  | NotADirectoryError string
  | IsADirectoryError string
  | FileExistsError string
  | PermissionError string
  | ValueError string
  | Exception string

section \<open>The file system\<close>

text \<open>
  The handler talks to the file system through \<open>tempfile.mkdtemp\<close>, \<open>open(_, "wb")\<close>
  with \<open>shutil.copyfileobj\<close>, \<open>os.path.exists\<close> and \<open>shutil.rmtree\<close>. The model is a
  tree without symbolic links. A directory lists its entries, name and node, in the
  order in which they were created; this order stands for the order in which
  \<open>os.scandir\<close> returns them. \<open>denied\<close> lists the nodes, by the names leading to them
  from the root, that the process may not create, overwrite or delete (permissions,
  immutable or busy entries); \<open>cwd\<close> is the working directory, against which relative
  paths are resolved.
\<close>

datatype node = File string | Dir "(string \<times> node) list"

record os_state =
  root :: node
  denied :: "string list list"
  cwd :: "string list"

text \<open>The node reached from a node by a list of names; the first entry of a name counts.\<close>

fun lookup :: "node \<Rightarrow> string list \<Rightarrow> node option"
  and lookup_entry :: "(string \<times> node) list \<Rightarrow> string \<Rightarrow> string list \<Rightarrow> node option" where
  "lookup n [] = Some n"
| "lookup (File d) (c # cs) = None"
| "lookup (Dir es) (c # cs) = lookup_entry es c cs"
| "lookup_entry [] c cs = None"
| "lookup_entry ((k, m) # es) c cs = (if k = c then lookup m cs else lookup_entry es c cs)"

text \<open>
  \<open>put n q x\<close> stores the node \<open>x\<close> at \<open>q\<close>: it replaces what is there, or becomes the
  last entry of the directory that is to hold it. Nothing is stored when that
  directory does not exist.
\<close>

fun put :: "node \<Rightarrow> string list \<Rightarrow> node \<Rightarrow> node"
  and put_entry ::
    "(string \<times> node) list \<Rightarrow> string \<Rightarrow> string list \<Rightarrow> node \<Rightarrow> (string \<times> node) list" where
  "put n [] x = x"
| "put (File d) (c # cs) x = File d"
| "put (Dir es) (c # cs) x = Dir (put_entry es c cs x)"
| "put_entry [] c cs x = (if cs = [] then [(c, x)] else [])"
| "put_entry ((k, m) # es) c cs x =
     (if k = c then (k, put m cs x) # es else (k, m) # put_entry es c cs x)"

text \<open>\<open>remove n q\<close> takes the entry at \<open>q\<close>, with everything below it, out of its directory.\<close>

fun remove :: "node \<Rightarrow> string list \<Rightarrow> node"
  and remove_entry ::
    "(string \<times> node) list \<Rightarrow> string \<Rightarrow> string list \<Rightarrow> (string \<times> node) list" where
  "remove n [] = n"
| "remove (File d) (c # cs) = File d"
| "remove (Dir es) (c # cs) = Dir (remove_entry es c cs)"
| "remove_entry [] c cs = []"
| "remove_entry ((k, m) # es) c cs =
     (if k = c then (if cs = [] then remove_entry es c cs else (k, remove m cs) # es)
      else (k, m) # remove_entry es c cs)"

text \<open>\<open>p.split('/')\<close>\<close>

fun split_sep :: "string \<Rightarrow> string list" where
  "split_sep [] = [[]]"
| "split_sep (c # cs) =
     (if c = CHR ''/'' then [] # split_sep cs
      else (case split_sep cs of [] \<Rightarrow> [[c]] | x # xs \<Rightarrow> (c # x) # xs))"

text \<open>
  Path resolution as the kernel does it: every component is looked up in the
  directory reached so far, which must exist and be a directory; empty components
  and \<open>.\<close> stay, \<open>..\<close> goes to the parent (the root is its own parent). The last
  component itself need not exist. The first argument is the path as the caller
  wrote it, for the exception.
\<close>

fun walk :: "string \<Rightarrow> os_state \<Rightarrow> string list \<Rightarrow> string list \<Rightarrow> exn + string list" where
  "walk p s cur [] = Inr cur"
| "walk p s cur (c # cs) =
     (case lookup (root s) cur of
        None \<Rightarrow> Inl (FileNotFoundError p)
      | Some (File d) \<Rightarrow> Inl (NotADirectoryError p)
      | Some (Dir es) \<Rightarrow>
          walk p s
            (if c = [] \<or> c = ''.'' then cur
             else if c = ''..'' then butlast cur
             else cur @ [c])
            cs)"

definition resolve :: "os_state \<Rightarrow> string \<Rightarrow> exn + string list" where
  "resolve s p =
     (if p = [] then Inl (FileNotFoundError p)
      else if List.member p (CHR 0x00) then Inl (ValueError ''embedded null byte'')
      else walk p s (if take 1 p = ''/'' then [] else cwd s) (split_sep p))"

text \<open>\<open>os.path.exists\<close>: \<open>os.stat\<close> succeeds; \<open>OSError\<close> and \<open>ValueError\<close> give \<open>False\<close>.\<close>

definition path_exists :: "os_state \<Rightarrow> string \<Rightarrow> bool" where
  "path_exists s p =
     (case resolve s p of
        Inl e \<Rightarrow> False
      | Inr q \<Rightarrow> (case lookup (root s) q of None \<Rightarrow> False | Some n \<Rightarrow> True))"

text \<open>
  \<open>with open(p, "wb") as f: shutil.copyfileobj(src, f)\<close>: the file is created or
  truncated and receives the whole content of the upload.
\<close>

definition write_file :: "os_state \<Rightarrow> string \<Rightarrow> string \<Rightarrow> exn + os_state" where
  "write_file s p content =
     (case resolve s p of
        Inl e \<Rightarrow> Inl e
      | Inr q \<Rightarrow>
          (case lookup (root s) q of
             Some (Dir es) \<Rightarrow> Inl (IsADirectoryError p)
           | _ \<Rightarrow>
               if List.member (denied s) q then Inl (PermissionError p)
               else Inr (s\<lparr>root := put (root s) q (File content)\<rparr>)))"

definition mkdir :: "os_state \<Rightarrow> string \<Rightarrow> exn + os_state" where
  "mkdir s p =
     (case resolve s p of
        Inl e \<Rightarrow> Inl e
      | Inr q \<Rightarrow>
          (case lookup (root s) q of
             Some n \<Rightarrow> Inl (FileExistsError p)
           | None \<Rightarrow>
               if List.member (denied s) q then Inl (PermissionError p)
               else Inr (s\<lparr>root := put (root s) q (Dir [])\<rparr>)))"

text \<open>
  The traversal of \<open>shutil.rmtree\<close> with the default error handling, on the entries
  of the directory \<open>q\<close>, in their order: a file is unlinked; a directory is emptied
  by the same traversal and then removed; the first entry that cannot be removed
  raises \<open>PermissionError\<close> with the name of that entry, and the traversal stops.
  The result is the exception, if any, and the entries that are left: what was
  removed before the failure stays removed, what comes after it is untouched.
\<close>

fun rm_entries ::
  "string list list \<Rightarrow> string list \<Rightarrow> (string \<times> node) list
     \<Rightarrow> exn option \<times> (string \<times> node) list" where
  "rm_entries dn q [] = (None, [])"
| "rm_entries dn q ((k, File d) # es) =
     (if List.member dn (q @ [k]) then (Some (PermissionError k), (k, File d) # es)
      else rm_entries dn q es)"
| "rm_entries dn q ((k, Dir cs) # es) =
     (case rm_entries dn (q @ [k]) cs of
        (Some e, cs') \<Rightarrow> (Some e, (k, Dir cs') # es)
      | (None, cs') \<Rightarrow>
          if List.member dn (q @ [k]) then (Some (PermissionError k), (k, Dir cs') # es)
          else rm_entries dn q es)"

text \<open>
  \<open>shutil.rmtree(p)\<close>: \<open>p\<close> must be a directory; its entries are removed by the
  traversal above and the directory itself is removed last. The result is what was
  raised, if anything, and the file system as the call leaves it: after a failure
  the directory \<open>p\<close> is still there, with the entries that the traversal left.
\<close>

definition rmtree :: "os_state \<Rightarrow> string \<Rightarrow> (exn + unit) \<times> os_state" where
  "rmtree s p =
     (case resolve s p of
        Inl e \<Rightarrow> (Inl e, s)
      | Inr q \<Rightarrow>
          (case lookup (root s) q of
             None \<Rightarrow> (Inl (FileNotFoundError p), s)
           | Some (File d) \<Rightarrow> (Inl (NotADirectoryError p), s)
           | Some (Dir es) \<Rightarrow>
               (case rm_entries (denied s) q es of
                  (Some e, es') \<Rightarrow> (Inl e, s\<lparr>root := put (root s) q (Dir es')\<rparr>)
                | (None, es') \<Rightarrow>
                    if q = [] \<or> List.member (denied s) q
                    then (Inl (PermissionError p), s\<lparr>root := put (root s) q (Dir es')\<rparr>)
                    else (Inr (), s\<lparr>root := remove (root s) q\<rparr>))))"

section \<open>The request, the agent and the world\<close>

text \<open>
  An \<open>UploadFile\<close>: the file name the client sent in the multipart part (any string:
  the framework does not sanitise it) and the bytes of the upload.
\<close>

record upload =
  filename :: string
  content :: string

text \<open>
  The parameters of \<open>inference\<close> (lines 56 to 66). Floating-point numbers are not
  modelled: \<open>'f\<close> is the type of Python floats, and the handler only passes them on
  and formats them. \<open>emo\<close> is \<open>Optional[str]\<close>.
\<close>

record 'f request =
  ref_image :: upload
  audio :: upload
  a_cfg_scale :: 'f
  r_cfg_scale :: 'f
  e_cfg_scale :: 'f
  emo :: "string option"
  nfe :: int
  no_crop :: bool
  seed :: int

text \<open>The keyword arguments of \<open>agent.run_inference\<close> (lines 116 to 128).\<close>

record 'f inference_args =
  arg_res_video_path :: string
  arg_ref_path :: string
  arg_audio_path :: string
  arg_a_cfg_scale :: 'f
  arg_r_cfg_scale :: 'f
  arg_e_cfg_scale :: 'f
  arg_emo :: string
  arg_nfe :: int
  arg_no_crop :: bool
  arg_seed :: int
  arg_verbose :: bool

text \<open>
  \<open>InferenceAgent\<close> comes from the module \<open>generate\<close>, which is not part of the
  repository: the agent is a parameter. \<open>res_dir\<close> is \<open>agent.opt.res_dir\<close>;
  \<open>run_inference\<close> may do anything to the file system, and either raises or returns
  a path; \<open>run_output\<close> is what that call prints (it is called with \<open>verbose=True\<close>).
\<close>

record 'f agent =
  res_dir :: string
  run_inference :: "'f inference_args \<Rightarrow> os_state \<Rightarrow> (exn + string) \<times> os_state"
  run_output :: "'f inference_args \<Rightarrow> os_state \<Rightarrow> string list"

text \<open>
  What the handler takes from the Python runtime without computing it: how a float
  is formatted in an f-string (\<open>float_str\<close>) and what \<open>str(e)\<close> is for an exception
  (\<open>exn_str\<close>).
\<close>

record 'f runtime =
  float_str :: "'f \<Rightarrow> string"
  exn_str :: "exn \<Rightarrow> string"

text \<open>
  The world a request runs in: the file system; \<open>next_tmp\<close>, the path that
  \<open>tempfile.mkdtemp()\<close> is going to pick; \<open>clock\<close>, the value of
  \<open>datetime.datetime.now().strftime("%Y-%m-%dT%H-%M-%S")\<close>; \<open>stdout\<close>, the lines
  printed so far; and \<open>calls\<close>, the arguments of every call of \<open>run_inference\<close> so
  far (a history kept by the model, to state what the agent was given).
\<close>

record 'f world =
  fs :: os_state
  next_tmp :: string
  clock :: string
  stdout :: "string list"
  calls :: "'f inference_args list"

text \<open>\<open>FileResponse(path=..., media_type=..., filename=...)\<close>\<close>

datatype response = FileResponse (path: string) (media_type: string) (download_name: string)

section \<open>The handler \<open>inference\<close>\<close>

text \<open>
  \<open>tempfile.mkdtemp()\<close> creates the directory \<open>next_tmp\<close> and returns its path. The
  real function tries other names when its pick exists already; here the pick is
  part of the world, and a pick that cannot be created raises.
\<close>

definition mkdtemp :: "'f world \<Rightarrow> (exn + string) \<times> 'f world" where
  "mkdtemp w =
     (case mkdir (fs w) (next_tmp w) of
        Inl e \<Rightarrow> (Inl e, w)
      | Inr s \<Rightarrow> (Inr (next_tmp w), w\<lparr>fs := s\<rparr>))"

text \<open>Lines 92 to 99: both uploads are stored under the names the client gave.\<close>

definition save_uploads ::
  "'f request \<Rightarrow> string \<Rightarrow> os_state \<Rightarrow> (exn + string \<times> string) \<times> os_state" where
  "save_uploads req temp_dir s =
     (let ref_path = path_join temp_dir (filename (ref_image req));
          audio_path = path_join temp_dir (filename (audio req))
      in case write_file s ref_path (content (ref_image req)) of
           Inl e \<Rightarrow> (Inl e, s)
         | Inr s1 \<Rightarrow>
             (case write_file s1 audio_path (content (audio req)) of
                Inl e \<Rightarrow> (Inl e, s1)
              | Inr s2 \<Rightarrow> (Inr (ref_path, audio_path), s2)))"

text \<open>\<open>emo if emo else 'S2E'\<close>: \<open>None\<close> and the empty string are both false.\<close>

definition emotion_of :: "string option \<Rightarrow> string" where
  "emotion_of e = (case e of None \<Rightarrow> ''S2E'' | Some x \<Rightarrow> if x = [] then ''S2E'' else x)"

text \<open>Lines 102 to 128: the output path and the arguments of the call.\<close>

definition make_args ::
  "'f runtime \<Rightarrow> 'f agent \<Rightarrow> 'f request \<Rightarrow> string \<Rightarrow> string \<Rightarrow> string \<Rightarrow> 'f inference_args" where
  "make_args rt ag req call_time ref_path audio_path =
     (let video_name = fst (splitext (filename (ref_image req)));
          audio_name = fst (splitext (filename (audio req)));
          res_video_path = path_join (res_dir ag)
            (call_time @ ''-'' @ video_name @ ''-'' @ audio_name
              @ ''-nfe'' @ str_int (nfe req) @ ''-seed'' @ str_int (seed req)
              @ ''-acfg'' @ float_str rt (a_cfg_scale req)
              @ ''-ecfg'' @ float_str rt (e_cfg_scale req)
              @ ''-'' @ emotion_of (emo req) @ ''.mp4'');
          emotion = emotion_of (emo req)
      in \<lparr>arg_res_video_path = res_video_path,
          arg_ref_path = ref_path,
          arg_audio_path = audio_path,
          arg_a_cfg_scale = a_cfg_scale req,
          arg_r_cfg_scale = r_cfg_scale req,
          arg_e_cfg_scale = e_cfg_scale req,
          arg_emo = emotion,
          arg_nfe = nfe req,
          arg_no_crop = no_crop req,
          arg_seed = seed req,
          arg_verbose = True\<rparr>)"

text \<open>
  The body of the \<open>try\<close> (lines 91 to 139). \<open>Inl e\<close> is "raises \<open>e\<close>": a failed
  upload, whatever the agent raises, or the \<open>HTTPException\<close> of line 132.
\<close>

definition try_body ::
  "'f runtime \<Rightarrow> 'f agent \<Rightarrow> 'f request \<Rightarrow> string \<Rightarrow> 'f world \<Rightarrow> (exn + response) \<times> 'f world" where
  "try_body rt ag req temp_dir w =
     (case save_uploads req temp_dir (fs w) of
        (Inl e, s) \<Rightarrow> (Inl e, w\<lparr>fs := s\<rparr>)
      | (Inr (ref_path, audio_path), s) \<Rightarrow>
          (let args = make_args rt ag req (clock w) ref_path audio_path
           in case run_inference ag args s of
                (Inl e, s') \<Rightarrow>
                  (Inl e,
                   w\<lparr>fs := s', stdout := stdout w @ run_output ag args s,
                     calls := calls w @ [args]\<rparr>)
              | (Inr result_path, s') \<Rightarrow>
                  (if \<not> path_exists s' result_path
                   then Inl (HTTPException 500 detail_generation_failed)
                   else Inr (FileResponse result_path ''video/mp4'' (basename result_path)),
                   w\<lparr>fs := s', stdout := stdout w @ run_output ag args s,
                     calls := calls w @ [args]\<rparr>)))"

text \<open>Lines 141 and 142: every \<open>Exception\<close> raised in the body is wrapped in a 500.\<close>

definition except_clause :: "'f runtime \<Rightarrow> exn + response \<Rightarrow> exn + response" where
  "except_clause rt r =
     (case r of
        Inl e \<Rightarrow> Inl (HTTPException 500 (detail_error_prefix @ exn_str rt e))
      | Inr resp \<Rightarrow> Inr resp)"

text \<open>
  Lines 144 to 149: the \<open>finally\<close> block. The file system is what \<open>rmtree\<close> leaves;
  when \<open>rmtree\<close> raises, the exception is printed and goes no further.
\<close>

definition finally_clause :: "'f runtime \<Rightarrow> string \<Rightarrow> 'f world \<Rightarrow> 'f world" where
  "finally_clause rt temp_dir w =
     (case rmtree (fs w) temp_dir of
        (Inl e, s) \<Rightarrow> w\<lparr>fs := s, stdout := stdout w @ [log_cleanup_prefix @ exn_str rt e]\<rparr>
      | (Inr u, s) \<Rightarrow> w\<lparr>fs := s\<rparr>)"

text \<open>
  The handler. The global \<open>agent\<close> is \<open>None\<close> until \<open>startup_event\<close> has run. The
  result \<open>Inl e\<close> is "raises \<open>e\<close>"; \<open>mkdtemp\<close> is called outside the \<open>try\<close>, so what it
  raises leaves the handler as it is.
\<close>

definition inference ::
  "'f runtime \<Rightarrow> 'f agent option \<Rightarrow> 'f request \<Rightarrow> 'f world \<Rightarrow> (exn + response) \<times> 'f world" where
  "inference rt agent req w =
     (case agent of
        None \<Rightarrow> (Inl (HTTPException 503 detail_not_loaded), w)
      | Some ag \<Rightarrow>
          (case mkdtemp w of
             (Inl e, w1) \<Rightarrow> (Inl e, w1)
           | (Inr temp_dir, w1) \<Rightarrow>
               (case try_body rt ag req temp_dir w1 of
                  (r, w2) \<Rightarrow> (except_clause rt r, finally_clause rt temp_dir w2))))"

section \<open>The output path as the specification words it\<close>

text \<open>
  The pattern of the specification, read literally: the base name of each upload's
  file name (\<open>os.path.basename\<close>) without its extension.
\<close>

definition spec_output_path :: "'f runtime \<Rightarrow> string \<Rightarrow> string \<Rightarrow> 'f request \<Rightarrow> string" where
  "spec_output_path rt results_dir timestamp req =
     path_join results_dir
       (timestamp @ ''-'' @ fst (splitext (basename (filename (ref_image req))))
         @ ''-'' @ fst (splitext (basename (filename (audio req))))
         @ ''-nfe'' @ str_int (nfe req) @ ''-seed'' @ str_int (seed req)
         @ ''-acfg'' @ float_str rt (a_cfg_scale req)
         @ ''-ecfg'' @ float_str rt (e_cfg_scale req)
         @ ''-'' @ emotion_of (emo req) @ ''.mp4'')"

section \<open>Concrete runs\<close>

text \<open>
  A runtime to evaluate the handler with. Floats with a whole value are represented
  by that integer, and \<open>2.0\<close> is formatted as \<open>2.0\<close>. \<open>str(e)\<close> is Starlette's
  \<open>__str__\<close> for an \<open>HTTPException\<close> (status code, colon, detail), CPython's for an
  \<open>OSError\<close> with a file name (for a path of plain ASCII letters, whose \<open>repr\<close> is
  the path between single quotes), and the message for the others.
\<close>

definition os_error_str :: "int \<Rightarrow> string \<Rightarrow> string \<Rightarrow> string" where
  "os_error_str errno strerror p =
     ''[Errno '' @ str_int errno @ ''] '' @ strerror @ '': '' @ [CHR 0x27] @ p @ [CHR 0x27]"

definition cpython_exn_str :: "exn \<Rightarrow> string" where
  "cpython_exn_str e =
     (case e of
        HTTPException c d \<Rightarrow> str_int (int c) @ '': '' @ d
      | FileNotFoundError p \<Rightarrow> os_error_str 2 ''No such file or directory'' p
      | NotADirectoryError p \<Rightarrow> os_error_str 20 ''Not a directory'' p
      | IsADirectoryError p \<Rightarrow> os_error_str 21 ''Is a directory'' p
      | FileExistsError p \<Rightarrow> os_error_str 17 ''File exists'' p
      | PermissionError p \<Rightarrow> os_error_str 13 ''Permission denied'' p
      | ValueError m \<Rightarrow> m
      | Exception m \<Rightarrow> m)"

definition cpython :: "int runtime" where
  "cpython = \<lparr>float_str = (\<lambda>x. str_int x @ ''.0''), exn_str = cpython_exn_str\<rparr>"

text \<open>
  A machine with \<open>/tmp\<close> and \<open>/srv/results\<close>, the service running in \<open>/srv\<close>, nothing
  printed and the agent never called yet.
\<close>

definition world0 :: "int world" where
  "world0 =
     \<lparr>fs = \<lparr>root = Dir [(''tmp'', Dir []), (''srv'', Dir [(''results'', Dir [])])],
            denied = [],
            cwd = [''srv'']\<rparr>,
      next_tmp = ''/tmp/tmpk3v9x2qa'',
      clock = ''2024-05-01T12-00-00'',
      stdout = [],
      calls = []\<rparr>"

text \<open>The request of the specification's scenario: a JPEG, a WAV, default parameters.\<close>

definition request0 :: "int request" where
  "request0 =
     \<lparr>ref_image = \<lparr>filename = ''face.jpg'', content = ''JPEG''\<rparr>,
      audio = \<lparr>filename = ''speech.wav'', content = ''RIFF''\<rparr>,
      a_cfg_scale = 2, r_cfg_scale = 1, e_cfg_scale = 1,
      emo = None, nfe = 10, no_crop = False, seed = 25\<rparr>"

text \<open>
  Agents: one that writes the video where it is asked to, prints a line and returns
  that path;
\<close>

definition agent_ok :: "int agent" where
  "agent_ok =
     \<lparr>res_dir = ''./results'',
      run_inference = (\<lambda>a s.
        case write_file s (arg_res_video_path a) ''MP4'' of
          Inl e \<Rightarrow> (Inl e, s)
        | Inr s' \<Rightarrow> (Inr (arg_res_video_path a), s')),
      run_output = (\<lambda>a s. [''> [Done]''])\<rparr>"

text \<open>one that returns the path without having written anything;\<close>

definition agent_silent :: "int agent" where
  "agent_silent =
     \<lparr>res_dir = ''./results'',
      run_inference = (\<lambda>a s. (Inr (arg_res_video_path a), s)),
      run_output = (\<lambda>a s. [])\<rparr>"

text \<open>one that raises;\<close>

definition agent_raising :: "int agent" where
  "agent_raising =
     \<lparr>res_dir = ''./results'',
      run_inference = (\<lambda>a s. (Inl (Exception ''CUDA out of memory''), s)),
      run_output = (\<lambda>a s. [])\<rparr>"

text \<open>
  and two that leave the stored audio file in a state in which the process cannot
  delete it (a child process still holds it, or its permissions changed): one then
  writes the video and returns, the other raises.
\<close>

definition agent_ok_locking :: "int agent" where
  "agent_ok_locking =
     \<lparr>res_dir = ''./results'',
      run_inference = (\<lambda>a s.
        case write_file s (arg_res_video_path a) ''MP4'' of
          Inl e \<Rightarrow> (Inl e, s)
        | Inr s' \<Rightarrow>
            (Inr (arg_res_video_path a),
             s'\<lparr>denied := [[''tmp'', ''tmpk3v9x2qa'', ''speech.wav'']]\<rparr>)),
      run_output = (\<lambda>a s. [''> [Done]''])\<rparr>"

definition agent_raising_locking :: "int agent" where
  "agent_raising_locking =
     \<lparr>res_dir = ''./results'',
      run_inference = (\<lambda>a s.
        (Inl (Exception ''CUDA out of memory''),
         s\<lparr>denied := [[''tmp'', ''tmpk3v9x2qa'', ''speech.wav'']]\<rparr>)),
      run_output = (\<lambda>a s. [])\<rparr>"

text \<open>
  Requests that differ from \<open>request0\<close> in one field: a reference image whose file
  name has a directory part, an emotion of the documented list, and one outside it.
\<close>

definition request_dotdot :: "int request" where
  "request_dotdot = request0\<lparr>ref_image := \<lparr>filename = ''../x.png'', content = ''PNG''\<rparr>\<rparr>"

definition request_happy :: "int request" where
  "request_happy = request0\<lparr>emo := Some ''happy''\<rparr>"

definition request_bored :: "int request" where
  "request_bored = request0\<lparr>emo := Some ''bored''\<rparr>"

text \<open>The emotions listed in the description of the form field \<open>emo\<close> (line 62).\<close>

definition documented_emotions :: "string list" where
  "documented_emotions =
     [''angry'', ''disgust'', ''fear'', ''happy'', ''neutral'', ''sad'', ''surprise'']"

text \<open>
  The part of the output file name before the emotion label, as line 109 builds it.
\<close>

abbreviation output_stem :: "'f runtime \<Rightarrow> string \<Rightarrow> 'f request \<Rightarrow> string" where
  "output_stem rt call_time req \<equiv>
     call_time @ ''-'' @ fst (splitext (filename (ref_image req)))
       @ ''-'' @ fst (splitext (filename (audio req)))
       @ ''-nfe'' @ str_int (nfe req) @ ''-seed'' @ str_int (seed req)
       @ ''-acfg'' @ float_str rt (a_cfg_scale req)
       @ ''-ecfg'' @ float_str rt (e_cfg_scale req)"

text \<open>
  The arguments of the call of the agent, with the emotion label \<open>label\<close>, and the
  answer of the handler to what the agent does with the arguments \<open>a\<close> on the file
  system \<open>s\<close>, both written out.
\<close>

abbreviation agent_args ::
  "'f runtime \<Rightarrow> 'f agent \<Rightarrow> 'f request \<Rightarrow> string \<Rightarrow> string \<Rightarrow> string \<Rightarrow> string
     \<Rightarrow> 'f inference_args" where
  "agent_args rt ag req call_time ref_path audio_path label \<equiv>
     \<lparr>arg_res_video_path =
        path_join (res_dir ag) (output_stem rt call_time req @ ''-'' @ label @ ''.mp4''),
      arg_ref_path = ref_path,
      arg_audio_path = audio_path,
      arg_a_cfg_scale = a_cfg_scale req,
      arg_r_cfg_scale = r_cfg_scale req,
      arg_e_cfg_scale = e_cfg_scale req,
      arg_emo = label,
      arg_nfe = nfe req,
      arg_no_crop = no_crop req,
      arg_seed = seed req,
      arg_verbose = True\<rparr>"

abbreviation response_to ::
  "'f runtime \<Rightarrow> 'f agent \<Rightarrow> 'f inference_args \<Rightarrow> os_state \<Rightarrow> exn + response" where
  "response_to rt ag a s \<equiv>
     (case fst (run_inference ag a s) of
        Inl e \<Rightarrow> Inl (HTTPException 500 (detail_error_prefix @ exn_str rt e))
      | Inr result_path \<Rightarrow>
          if path_exists (snd (run_inference ag a s)) result_path
          then Inr (FileResponse result_path ''video/mp4'' (basename result_path))
          else Inl (HTTPException 500
                 (detail_error_prefix
                    @ exn_str rt (HTTPException 500 detail_generation_failed))))"

section \<open>Lemmas on the file system\<close>

text \<open>Whether there is a file, a directory or nothing: all that path resolution reads.\<close>

lemma lookup_File: "k \<noteq> [] \<Longrightarrow> lookup (File d) k = None"
  by (cases k) simp_all

lemma kind_remove:
  "q \<noteq> [] \<Longrightarrow>
     map_option (case_node (\<lambda>d. False) (\<lambda>es. True)) (lookup (remove n q) k) =
       (if prefix q k then None
        else map_option (case_node (\<lambda>d. False) (\<lambda>es. True)) (lookup n k))"
  "map_option (case_node (\<lambda>d. False) (\<lambda>es. True))
       (lookup_entry (remove_entry es c cs) c' cs') =
     (if c = c' \<and> prefix cs cs' then None
      else map_option (case_node (\<lambda>d. False) (\<lambda>es. True)) (lookup_entry es c' cs'))"
proof (induction n q and es c cs arbitrary: k and c' cs' rule: remove_remove_entry.induct)
  case (1 n)
  then show ?case by simp
next
  case (2 d c cs)
  then show ?case by (cases k) (auto simp: lookup_File)
next
  case (3 es c cs)
  then show ?case by (cases k) auto
next
  case (4 c cs)
  then show ?case by simp
next
  case (5 key m es c cs)
  show ?case
  proof (cases "key = c")
    case True
    show ?thesis
    proof (cases "cs = []")
      case True
      with \<open>key = c\<close> "5.IH"(1) [of c' cs'] show ?thesis by simp
    next
      case False
      with \<open>key = c\<close> "5.IH"(2) [of cs'] show ?thesis by simp
    qed
  next
    case False
    with "5.IH"(3) [of c' cs'] show ?thesis by auto
  qed
qed

lemma walk_submap:
  assumes "\<And>k. lookup (root s') k = None
             \<or> map_option (case_node (\<lambda>d. False) (\<lambda>es. True)) (lookup (root s') k)
                 = map_option (case_node (\<lambda>d. False) (\<lambda>es. True)) (lookup (root s) k)"
    and "walk p s' cur cs = Inr q"
  shows "walk p s cur cs = Inr q"
  using assms(2)
proof (induction cs arbitrary: cur)
  case Nil
  then show ?case by simp
next
  case (Cons c cs)
  from Cons.prems obtain es where n: "lookup (root s') cur = Some (Dir es)"
    by (auto split: option.splits node.splits)
  with assms(1) [of cur] obtain es' where "lookup (root s) cur = Some (Dir es')"
    by (cases "lookup (root s) cur") (auto split: node.splits)
  with Cons n show ?case by simp
qed

text \<open>After a successful \<open>rmtree\<close> the path no longer exists.\<close>

lemma rmtree_removes:
  assumes "rmtree s p = (Inr u, s')"
  shows "\<not> path_exists s' p"
proof
  assume ex: "path_exists s' p"
  from assms obtain q where q: "resolve s p = Inr q" and ne: "q \<noteq> []"
    and s': "s' = s\<lparr>root := remove (root s) q\<rparr>"
    by (auto simp: rmtree_def split: sum.splits option.splits node.splits if_splits prod.splits)
  from ex obtain q' where q': "resolve s' p = Inr q'" and n: "lookup (root s') q' \<noteq> None"
    by (auto simp: path_exists_def split: sum.splits option.splits)
  have k: "map_option (case_node (\<lambda>d. False) (\<lambda>es. True)) (lookup (root s') k) =
             (if prefix q k then None
              else map_option (case_node (\<lambda>d. False) (\<lambda>es. True)) (lookup (root s) k))" for k
    using kind_remove(1) [OF ne] by (simp add: s')
  have w: "\<And>cur cs x. walk p s' cur cs = Inr x \<Longrightarrow> walk p s cur cs = Inr x"
  proof (rule walk_submap)
    fix k
    show "lookup (root s') k = None
            \<or> map_option (case_node (\<lambda>d. False) (\<lambda>es. True)) (lookup (root s') k)
                = map_option (case_node (\<lambda>d. False) (\<lambda>es. True)) (lookup (root s) k)"
      using k [of k] by (cases "prefix q k") simp_all
  qed
  have c: "cwd s' = cwd s" by (simp add: s')
  from q' have "resolve s p = Inr q'"
    unfolding resolve_def c by (auto split: if_splits dest: w)
  with q have "q' = q" by simp
  with n k [of q] show False by simp
qed

lemma rfind_from_absent: "c \<notin> set p \<Longrightarrow> rfind_from c p i found = found"
  by (induction p arbitrary: i found) auto

lemma basename_no_sep: "CHR ''/'' \<notin> set p \<Longrightarrow> basename p = p"
  by (simp add: basename_def rfind_def rfind_from_absent)

section \<open>Lemmas on the handler\<close>

lemma mkdtemp_Inr:
  assumes "mkdtemp w = (Inr t, w1)"
  shows "t = next_tmp w" and "clock w1 = clock w" and "calls w1 = calls w"
    and "stdout w1 = stdout w" and "mkdir (fs w) (next_tmp w) = Inr (fs w1)"
  using assms by (auto simp: mkdtemp_def split: sum.splits)

lemma save_uploads_ignores [simp]:
  "save_uploads (req\<lparr>emo := e\<rparr>) t s = save_uploads req t s"
  "save_uploads (req\<lparr>r_cfg_scale := x\<rparr>) t s = save_uploads req t s"
  "save_uploads (req\<lparr>no_crop := b\<rparr>) t s = save_uploads req t s"
  by (simp_all add: save_uploads_def Let_def split: sum.splits)

lemma try_body_run:
  assumes "save_uploads req temp_dir (fs w1) = (Inr (ref_path, audio_path), s)"
    and "run_inference ag (make_args rt ag req (clock w1) ref_path audio_path) s = (r, s')"
  shows "try_body rt ag req temp_dir w1 =
    ((case r of
        Inl e \<Rightarrow> Inl e
      | Inr result_path \<Rightarrow>
          if \<not> path_exists s' result_path
          then Inl (HTTPException 500 detail_generation_failed)
          else Inr (FileResponse result_path ''video/mp4'' (basename result_path))),
     w1\<lparr>fs := s',
        stdout := stdout w1
          @ run_output ag (make_args rt ag req (clock w1) ref_path audio_path) s,
        calls := calls w1 @ [make_args rt ag req (clock w1) ref_path audio_path]\<rparr>)"
  using assms by (cases r) (simp_all add: try_body_def Let_def)

lemma inference_body:
  assumes "mkdtemp w = (Inr temp_dir, w1)"
    and "try_body rt ag req temp_dir w1 = (r, w2)"
  shows "inference rt (Some ag) req w = (except_clause rt r, finally_clause rt temp_dir w2)"
  using assms by (simp add: inference_def)

lemma finally_clause_calls [simp]: "calls (finally_clause rt t w) = calls w"
  by (simp add: finally_clause_def split: sum.splits prod.splits)

text \<open>
  A request for which the scratch directory is created and both uploads are stored
  reaches the call of the agent, and that call is the only one it makes.
\<close>

lemma inference_calls:
  assumes m: "mkdtemp w = (Inr temp_dir, w1)"
    and u: "save_uploads req temp_dir (fs w1) = (Inr (ref_path, audio_path), s)"
  shows "calls (snd (inference rt (Some ag) req w)) =
         calls w @ [make_args rt ag req (clock w) ref_path audio_path]"
proof -
  obtain r s' where a:
    "run_inference ag (make_args rt ag req (clock w1) ref_path audio_path) s = (r, s')"
    by (cases "run_inference ag (make_args rt ag req (clock w1) ref_path audio_path) s")
  show ?thesis
    using inference_body [OF m try_body_run [OF u a]] mkdtemp_Inr(2,3) [OF m] by simp
qed

lemma inference_run:
  assumes m: "mkdtemp w = (Inr temp_dir, w1)"
    and u: "save_uploads req temp_dir (fs w1) = (Inr (ref_path, audio_path), s)"
    and a: "run_inference ag (make_args rt ag req (clock w) ref_path audio_path) s = (r, s')"
  shows "inference rt (Some ag) req w =
    (except_clause rt
       (case r of
          Inl e \<Rightarrow> Inl e
        | Inr result_path \<Rightarrow>
            if \<not> path_exists s' result_path
            then Inl (HTTPException 500 detail_generation_failed)
            else Inr (FileResponse result_path ''video/mp4'' (basename result_path))),
     finally_clause rt temp_dir
       (w1\<lparr>fs := s',
           stdout := stdout w
             @ run_output ag (make_args rt ag req (clock w) ref_path audio_path) s,
           calls := calls w @ [make_args rt ag req (clock w) ref_path audio_path]\<rparr>))"
proof -
  from a have a1:
    "run_inference ag (make_args rt ag req (clock w1) ref_path audio_path) s = (r, s')"
    using mkdtemp_Inr(2) [OF m] by simp
  show ?thesis
    using inference_body [OF m try_body_run [OF u a1]] mkdtemp_Inr(2,3,4) [OF m] by simp
qed

lemma finally_clause_cases:
  "(case rmtree (fs w) t of
      (Inr u, s) \<Rightarrow>
        fs (finally_clause rt t w) = s \<and> \<not> path_exists (fs (finally_clause rt t w)) t
        \<and> stdout (finally_clause rt t w) = stdout w
    | (Inl e, s) \<Rightarrow>
        fs (finally_clause rt t w) = s
        \<and> stdout (finally_clause rt t w) = stdout w @ [log_cleanup_prefix @ exn_str rt e])"
  by (auto simp: finally_clause_def rmtree_removes split: sum.splits prod.splits)

lemma inference_calls_not_stored:
  assumes m: "mkdtemp w = (Inr temp_dir, w1)"
    and u: "save_uploads req temp_dir (fs w1) = (Inl e, s)"
  shows "calls (snd (inference rt (Some ag) req w)) = calls w"
proof -
  from u have "try_body rt ag req temp_dir w1 = (Inl e, w1\<lparr>fs := s\<rparr>)"
    by (simp add: try_body_def)
  from inference_body [OF m this] mkdtemp_Inr(3) [OF m] show ?thesis by simp
qed

lemma make_args_path:
  "arg_res_video_path (make_args rt ag req call_time ref_path audio_path) =
     path_join (res_dir ag)
       (output_stem rt call_time req @ ''-'' @ emotion_of (emo req) @ ''.mp4'')"
  by (simp add: make_args_def)

lemma make_args_emo:
  "arg_emo (make_args rt ag req call_time ref_path audio_path) = emotion_of (emo req)"
  by (simp add: make_args_def)

lemma make_args_label:
  "make_args rt ag req call_time ref_path audio_path =
     agent_args rt ag req call_time ref_path audio_path (emotion_of (emo req))"
  by (simp add: make_args_def)

text \<open>The answer of the handler to a request that reaches the call of the agent.\<close>

lemma inference_answer:
  assumes m: "mkdtemp w = (Inr temp_dir, w1)"
    and u: "save_uploads req temp_dir (fs w1) = (Inr (ref_path, audio_path), s)"
  shows "fst (inference rt (Some ag) req w) =
         response_to rt ag (make_args rt ag req (clock w) ref_path audio_path) s"
proof -
  let ?a = "make_args rt ag req (clock w) ref_path audio_path"
  have a: "run_inference ag ?a s = (fst (run_inference ag ?a s), snd (run_inference ag ?a s))"
    by simp
  show ?thesis
    using inference_run [OF m u a]
    by (simp add: except_clause_def split: sum.splits)
qed

section \<open>Facts about the concrete runs\<close>

lemma world0_mkdtemp:
  "mkdtemp world0 = (Inr ''/tmp/tmpk3v9x2qa'', snd (mkdtemp world0))"
proof -
  have "fst (mkdtemp world0) = Inr ''/tmp/tmpk3v9x2qa''" by code_simp
  then show ?thesis by (cases "mkdtemp world0") simp
qed

lemma world0_uploads:
  "save_uploads request0 ''/tmp/tmpk3v9x2qa'' (fs (snd (mkdtemp world0))) =
     (Inr (''/tmp/tmpk3v9x2qa/face.jpg'', ''/tmp/tmpk3v9x2qa/speech.wav''),
      snd (save_uploads request0 ''/tmp/tmpk3v9x2qa'' (fs (snd (mkdtemp world0)))))"
proof -
  have "fst (save_uploads request0 ''/tmp/tmpk3v9x2qa'' (fs (snd (mkdtemp world0)))) =
        Inr (''/tmp/tmpk3v9x2qa/face.jpg'', ''/tmp/tmpk3v9x2qa/speech.wav'')"
    by code_simp
  then show ?thesis
    by (cases "save_uploads request0 ''/tmp/tmpk3v9x2qa'' (fs (snd (mkdtemp world0)))") simp
qed

section \<open>The claims\<close>

text \<open>
  C1, as stated, fails: for a reference image sent under the file name \<open>../x.png\<close>
  the upload is stored (next to the scratch directory), and the path handed to the
  agent has \<open>../x\<close> where the specification's pattern has the base name \<open>x\<close>.
\<close>

theorem output_path_basename_counterexample:
  "fst (save_uploads request_dotdot ''/tmp/tmpk3v9x2qa'' (fs (snd (mkdtemp world0)))) =
     Inr (''/tmp/tmpk3v9x2qa/../x.png'', ''/tmp/tmpk3v9x2qa/speech.wav'')
   \<and> lookup
         (root (snd (save_uploads request_dotdot ''/tmp/tmpk3v9x2qa'' (fs (snd (mkdtemp world0))))))
         [''tmp'', ''x.png''] = Some (File ''PNG'')
   \<and> map arg_res_video_path
       (calls (snd (inference cpython (Some agent_ok) request_dotdot world0))) =
     [''./results/2024-05-01T12-00-00-../x-speech-nfe10-seed25-acfg2.0-ecfg1.0-S2E.mp4'']
   \<and> spec_output_path cpython (res_dir agent_ok) (clock world0) request_dotdot =
     ''./results/2024-05-01T12-00-00-x-speech-nfe10-seed25-acfg2.0-ecfg1.0-S2E.mp4''"
  by code_simp

text \<open>
  C1, amended. For every request that reaches the computation (the scratch directory
  is created and both uploads are stored), the output path handed to the agent is
  the results directory joined (\<open>os.path.join\<close>) with the timestamp, the two file
  names with their extension removed by \<open>os.path.splitext\<close> (a directory part of a
  file name is kept), \<open>nfe\<close>, \<open>seed\<close>, \<open>a_cfg_scale\<close>, \<open>e_cfg_scale\<close> and the emotion
  label or \<open>S2E\<close>, in the pattern of line 109: a function of these inputs and the
  timestamp only. When neither file name contains a \<open>/\<close>, this is the path of the
  specification's pattern.
\<close>

theorem output_path_computed:
  assumes "mkdtemp w = (Inr temp_dir, w1)"
    and "save_uploads req temp_dir (fs w1) = (Inr (ref_path, audio_path), s)"
  shows "map arg_res_video_path (calls (snd (inference rt (Some ag) req w))) =
           map arg_res_video_path (calls w) @
           [path_join (res_dir ag)
              (clock w @ ''-'' @ fst (splitext (filename (ref_image req)))
                @ ''-'' @ fst (splitext (filename (audio req)))
                @ ''-nfe'' @ str_int (nfe req) @ ''-seed'' @ str_int (seed req)
                @ ''-acfg'' @ float_str rt (a_cfg_scale req)
                @ ''-ecfg'' @ float_str rt (e_cfg_scale req)
                @ ''-'' @ emotion_of (emo req) @ ''.mp4'')]
         \<and> (CHR ''/'' \<notin> set (filename (ref_image req))
              \<and> CHR ''/'' \<notin> set (filename (audio req)) \<longrightarrow>
            map arg_res_video_path (calls (snd (inference rt (Some ag) req w))) =
              map arg_res_video_path (calls w)
                @ [spec_output_path rt (res_dir ag) (clock w) req])"
  using inference_calls [OF assms]
  by (simp add: make_args_path spec_output_path_def basename_no_sep)

theorem output_path_computed_witness:
  "map arg_res_video_path
       (calls (snd (inference cpython (Some agent_ok) request0 world0))) =
     [''./results/2024-05-01T12-00-00-face-speech-nfe10-seed25-acfg2.0-ecfg1.0-S2E.mp4'']
   \<and> spec_output_path cpython (res_dir agent_ok) (clock world0) request0 =
     ''./results/2024-05-01T12-00-00-face-speech-nfe10-seed25-acfg2.0-ecfg1.0-S2E.mp4''"
proof -
  have c: "calls world0 = []" by (simp add: world0_def)
  have n: "CHR ''/'' \<notin> set (filename (ref_image request0))
           \<and> CHR ''/'' \<notin> set (filename (audio request0))"
    by (simp add: request0_def)
  have p: "spec_output_path cpython (res_dir agent_ok) (clock world0) request0 =
     ''./results/2024-05-01T12-00-00-face-speech-nfe10-seed25-acfg2.0-ecfg1.0-S2E.mp4''"
    by code_simp
  note t = output_path_computed [OF world0_mkdtemp world0_uploads, of cpython agent_ok]
  from t n have "map arg_res_video_path
       (calls (snd (inference cpython (Some agent_ok) request0 world0))) =
     map arg_res_video_path (calls world0)
       @ [spec_output_path cpython (res_dir agent_ok) (clock world0) request0]"
    by blast
  with c p show ?thesis by simp
qed

text \<open>
  C2. When the agent returns a path that does not exist, line 132 raises
  \<open>HTTPException(500, detail_generation_failed)\<close> inside the \<open>try\<close>, and the clause
  \<open>except Exception\<close> of line 141 catches it, as it catches every other exception:
  the handler answers 500 with the prefix of line 142 followed by \<open>str\<close> of that
  \<open>HTTPException\<close>, which is never the fixed detail of line 132 alone.
\<close>

theorem missing_output_detail_is_wrapped:
  assumes "mkdtemp w = (Inr temp_dir, w1)"
    and "save_uploads req temp_dir (fs w1) = (Inr (ref_path, audio_path), s)"
    and "run_inference ag (make_args rt ag req (clock w) ref_path audio_path) s
           = (Inr result_path, s')"
    and "\<not> path_exists s' result_path"
  shows "fst (inference rt (Some ag) req w) =
           Inl (HTTPException 500
             (detail_error_prefix @ exn_str rt (HTTPException 500 detail_generation_failed)))
         \<and> detail_error_prefix @ exn_str rt (HTTPException 500 detail_generation_failed)
             \<noteq> detail_generation_failed"
proof -
  have "detail_error_prefix @ x \<noteq> detail_generation_failed" for x
    by (simp add: detail_error_prefix_def detail_generation_failed_def)
  then show ?thesis
    using inference_run [OF assms(1,2,3)] assms(4) by (simp add: except_clause_def)
qed

theorem missing_output_detail_is_wrapped_witness:
  "fst (inference cpython (Some agent_silent) request0 world0) =
     Inl (HTTPException 500 (detail_error_prefix @ ''500: '' @ detail_generation_failed))
   \<and> fst (inference cpython (Some agent_silent) request0 world0) \<noteq>
     Inl (HTTPException 500 detail_generation_failed)"
proof -
  let ?s = "snd (save_uploads request0 ''/tmp/tmpk3v9x2qa'' (fs (snd (mkdtemp world0))))"
  let ?args = "make_args cpython agent_silent request0 (clock world0)
                 ''/tmp/tmpk3v9x2qa/face.jpg'' ''/tmp/tmpk3v9x2qa/speech.wav''"
  let ?out = "''./results/2024-05-01T12-00-00-face-speech-nfe10-seed25-acfg2.0-ecfg1.0-S2E.mp4''"
  have "fst (run_inference agent_silent ?args ?s) = Inr ?out" by code_simp
  moreover have "snd (run_inference agent_silent ?args ?s) = ?s"
    by (simp add: agent_silent_def)
  ultimately have a: "run_inference agent_silent ?args ?s = (Inr ?out, ?s)"
    by (cases "run_inference agent_silent ?args ?s") simp
  have e: "\<not> path_exists ?s ?out" by code_simp
  have r: "exn_str cpython (HTTPException 500 detail_generation_failed)
             = ''500: '' @ detail_generation_failed"
    by (simp add: cpython_def cpython_exn_str_def str_int_def str_nat.simps)
  show ?thesis
    using missing_output_detail_is_wrapped [OF world0_mkdtemp world0_uploads a e] r by simp
qed

text \<open>
  C3, as stated, fails: the scratch directory was allocated, the agent wrote the
  video and returned (leaving the stored audio file in a state in which the process
  cannot delete it), and the handler answered with the file. The cleanup removed the
  stored image, failed on the audio file and printed the failure; the scratch
  directory is still there after the response.
\<close>

theorem scratch_dir_remains_counterexample:
  "fst (mkdtemp world0) = Inr ''/tmp/tmpk3v9x2qa''
   \<and> fst (inference cpython (Some agent_ok_locking) request0 world0) =
       Inr (FileResponse
         ''./results/2024-05-01T12-00-00-face-speech-nfe10-seed25-acfg2.0-ecfg1.0-S2E.mp4''
         ''video/mp4''
         ''2024-05-01T12-00-00-face-speech-nfe10-seed25-acfg2.0-ecfg1.0-S2E.mp4'')
   \<and> path_exists (fs (snd (inference cpython (Some agent_ok_locking) request0 world0)))
       ''/tmp/tmpk3v9x2qa''
   \<and> lookup (root (fs (snd (inference cpython (Some agent_ok_locking) request0 world0))))
       [''tmp'', ''tmpk3v9x2qa''] = Some (Dir [(''speech.wav'', File ''RIFF'')])
   \<and> stdout (snd (inference cpython (Some agent_ok_locking) request0 world0)) =
       [''> [Done]'',
        log_cleanup_prefix @ ''[Errno 13] Permission denied: '' @ [CHR 0x27] @ ''speech.wav''
          @ [CHR 0x27]]"
  by code_simp

text \<open>
  C3, amended. Once the scratch directory is allocated, whatever the body of the
  \<open>try\<close> does (it returns a response, or raises on a failed upload, in the agent or
  on a missing output), the response is decided by the body's outcome alone, and
  \<open>rmtree\<close> is run on the scratch directory, the file system being afterwards what
  \<open>rmtree\<close> leaves: when it succeeds the directory no longer exists and nothing is
  printed; when it raises, the failure is printed (and nothing else is), and the
  directory may remain.
\<close>

theorem scratch_dir_cleanup:
  assumes "mkdtemp w = (Inr temp_dir, w1)"
    and "try_body rt ag req temp_dir w1 = (r, w2)"
  shows "fst (inference rt (Some ag) req w) = except_clause rt r
         \<and> fs (snd (inference rt (Some ag) req w)) = snd (rmtree (fs w2) temp_dir)
         \<and> (case fst (rmtree (fs w2) temp_dir) of
               Inr u \<Rightarrow>
                 \<not> path_exists (fs (snd (inference rt (Some ag) req w))) temp_dir
                 \<and> stdout (snd (inference rt (Some ag) req w)) = stdout w2
             | Inl e \<Rightarrow>
                 stdout (snd (inference rt (Some ag) req w))
                   = stdout w2 @ [log_cleanup_prefix @ exn_str rt e])"
  using inference_body [OF assms] finally_clause_cases [where w = w2 and t = temp_dir and rt = rt]
  by (auto split: sum.splits prod.splits)

theorem scratch_dir_cleanup_witness:
  "fst (inference cpython (Some agent_silent) request0 world0) =
     except_clause cpython (Inl (HTTPException 500 detail_generation_failed))
   \<and> \<not> path_exists (fs (snd (inference cpython (Some agent_silent) request0 world0)))
         ''/tmp/tmpk3v9x2qa''
   \<and> stdout (snd (inference cpython (Some agent_silent) request0 world0)) = []"
proof -
  let ?w1 = "snd (mkdtemp world0)"
  let ?b = "try_body cpython agent_silent request0 ''/tmp/tmpk3v9x2qa'' ?w1"
  have "fst ?b = Inl (HTTPException 500 detail_generation_failed)" by code_simp
  then have b: "?b = (Inl (HTTPException 500 detail_generation_failed), snd ?b)"
    by (cases ?b) simp
  have d: "fst (rmtree (fs (snd ?b)) ''/tmp/tmpk3v9x2qa'') = Inr ()" by code_simp
  have o: "stdout (snd ?b) = []" by code_simp
  show ?thesis
    using scratch_dir_cleanup [OF world0_mkdtemp b] d o by auto
qed

text \<open>
  C4. For every request that reaches the call of the agent: when \<open>emo\<close> is absent or
  the empty string, \<open>run_inference\<close> is applied to arguments whose emotion is the
  literal \<open>S2E\<close> and whose output path ends with \<open>-S2E.mp4\<close>; when \<open>emo\<close> is a
  non-empty string, that string is the emotion argument and stands in the same place
  of the output path. The response of the handler is its answer to what the agent
  does with these arguments, and they are what the history of calls records.
\<close>

theorem emotion_label_resolved:
  assumes "mkdtemp w = (Inr temp_dir, w1)"
    and "save_uploads req temp_dir (fs w1) = (Inr (ref_path, audio_path), s)"
  shows "(emo req = None \<or> emo req = Some [] \<longrightarrow>
            fst (inference rt (Some ag) req w) =
              response_to rt ag (agent_args rt ag req (clock w) ref_path audio_path ''S2E'') s
            \<and> calls (snd (inference rt (Some ag) req w)) =
                calls w @ [agent_args rt ag req (clock w) ref_path audio_path ''S2E''])
         \<and> (\<forall>e. emo req = Some e \<and> e \<noteq> [] \<longrightarrow>
            fst (inference rt (Some ag) req w) =
              response_to rt ag (agent_args rt ag req (clock w) ref_path audio_path e) s
            \<and> calls (snd (inference rt (Some ag) req w)) =
                calls w @ [agent_args rt ag req (clock w) ref_path audio_path e])"
proof -
  have t: "fst (inference rt (Some ag) req w) =
             response_to rt ag (agent_args rt ag req (clock w) ref_path audio_path l) s
           \<and> calls (snd (inference rt (Some ag) req w)) =
               calls w @ [agent_args rt ag req (clock w) ref_path audio_path l]"
    if h: "emotion_of (emo req) = l" for l
    using inference_answer [OF assms, of rt ag] inference_calls [OF assms, of rt ag]
    unfolding make_args_label h by blast
  have l: "emo req = None \<or> emo req = Some [] \<Longrightarrow> emotion_of (emo req) = ''S2E''"
    by (auto simp: emotion_of_def)
  have n: "emo req = Some e \<Longrightarrow> e \<noteq> [] \<Longrightarrow> emotion_of (emo req) = e" for e
    by (simp add: emotion_of_def)
  show ?thesis
    using t [OF l] t [OF n] by blast
qed

theorem emotion_label_resolved_witness:
  "fst (inference cpython (Some agent_ok) request0 world0) =
     Inr (FileResponse
       ''./results/2024-05-01T12-00-00-face-speech-nfe10-seed25-acfg2.0-ecfg1.0-S2E.mp4''
       ''video/mp4''
       ''2024-05-01T12-00-00-face-speech-nfe10-seed25-acfg2.0-ecfg1.0-S2E.mp4'')
   \<and> map arg_emo (calls (snd (inference cpython (Some agent_ok) request0 world0))) = [''S2E'']
   \<and> fst (inference cpython (Some agent_ok) request_happy world0) =
     Inr (FileResponse
       ''./results/2024-05-01T12-00-00-face-speech-nfe10-seed25-acfg2.0-ecfg1.0-happy.mp4''
       ''video/mp4''
       ''2024-05-01T12-00-00-face-speech-nfe10-seed25-acfg2.0-ecfg1.0-happy.mp4'')
   \<and> map arg_emo (calls (snd (inference cpython (Some agent_ok) request_happy world0)))
       = [''happy'']"
proof -
  let ?s = "snd (save_uploads request0 ''/tmp/tmpk3v9x2qa'' (fs (snd (mkdtemp world0))))"
  have u: "save_uploads request_happy ''/tmp/tmpk3v9x2qa'' (fs (snd (mkdtemp world0))) =
     (Inr (''/tmp/tmpk3v9x2qa/face.jpg'', ''/tmp/tmpk3v9x2qa/speech.wav''), ?s)"
    using world0_uploads by (simp add: request_happy_def)
  have e0: "emo request0 = None" by (simp add: request0_def)
  have e1: "emo request_happy = Some ''happy''" by (simp add: request_happy_def)
  have c: "calls world0 = []" by (simp add: world0_def)
  have r0: "response_to cpython agent_ok
              (agent_args cpython agent_ok request0 (clock world0)
                 ''/tmp/tmpk3v9x2qa/face.jpg'' ''/tmp/tmpk3v9x2qa/speech.wav'' ''S2E'') ?s =
     Inr (FileResponse
       ''./results/2024-05-01T12-00-00-face-speech-nfe10-seed25-acfg2.0-ecfg1.0-S2E.mp4''
       ''video/mp4''
       ''2024-05-01T12-00-00-face-speech-nfe10-seed25-acfg2.0-ecfg1.0-S2E.mp4'')"
    by code_simp
  have r1: "response_to cpython agent_ok
              (agent_args cpython agent_ok request_happy (clock world0)
                 ''/tmp/tmpk3v9x2qa/face.jpg'' ''/tmp/tmpk3v9x2qa/speech.wav'' ''happy'') ?s =
     Inr (FileResponse
       ''./results/2024-05-01T12-00-00-face-speech-nfe10-seed25-acfg2.0-ecfg1.0-happy.mp4''
       ''video/mp4''
       ''2024-05-01T12-00-00-face-speech-nfe10-seed25-acfg2.0-ecfg1.0-happy.mp4'')"
    by code_simp
  note t0 = emotion_label_resolved [OF world0_mkdtemp world0_uploads, of cpython agent_ok]
  note t1 = emotion_label_resolved [OF world0_mkdtemp u, of cpython agent_ok]
  from t0 e0 have
    "fst (inference cpython (Some agent_ok) request0 world0) =
       response_to cpython agent_ok
         (agent_args cpython agent_ok request0 (clock world0)
            ''/tmp/tmpk3v9x2qa/face.jpg'' ''/tmp/tmpk3v9x2qa/speech.wav'' ''S2E'') ?s
     \<and> calls (snd (inference cpython (Some agent_ok) request0 world0)) =
         calls world0 @ [agent_args cpython agent_ok request0 (clock world0)
            ''/tmp/tmpk3v9x2qa/face.jpg'' ''/tmp/tmpk3v9x2qa/speech.wav'' ''S2E'']"
    by blast
  with r0 c have a0:
    "fst (inference cpython (Some agent_ok) request0 world0) =
       Inr (FileResponse
         ''./results/2024-05-01T12-00-00-face-speech-nfe10-seed25-acfg2.0-ecfg1.0-S2E.mp4''
         ''video/mp4''
         ''2024-05-01T12-00-00-face-speech-nfe10-seed25-acfg2.0-ecfg1.0-S2E.mp4'')
     \<and> map arg_emo (calls (snd (inference cpython (Some agent_ok) request0 world0)))
         = [''S2E'']"
    by simp
  from t1 e1 have
    "fst (inference cpython (Some agent_ok) request_happy world0) =
       response_to cpython agent_ok
         (agent_args cpython agent_ok request_happy (clock world0)
            ''/tmp/tmpk3v9x2qa/face.jpg'' ''/tmp/tmpk3v9x2qa/speech.wav'' ''happy'') ?s
     \<and> calls (snd (inference cpython (Some agent_ok) request_happy world0)) =
         calls world0 @ [agent_args cpython agent_ok request_happy (clock world0)
            ''/tmp/tmpk3v9x2qa/face.jpg'' ''/tmp/tmpk3v9x2qa/speech.wav'' ''happy'']"
    by simp
  with r1 c have
    "fst (inference cpython (Some agent_ok) request_happy world0) =
       Inr (FileResponse
         ''./results/2024-05-01T12-00-00-face-speech-nfe10-seed25-acfg2.0-ecfg1.0-happy.mp4''
         ''video/mp4''
         ''2024-05-01T12-00-00-face-speech-nfe10-seed25-acfg2.0-ecfg1.0-happy.mp4'')
     \<and> map arg_emo (calls (snd (inference cpython (Some agent_ok) request_happy world0)))
         = [''happy'']"
    by simp
  with a0 show ?thesis by simp
qed

text \<open>
  C5. A request made while the agent is \<open>None\<close> is rejected: the handler raises
  \<open>HTTPException\<close> with status 503 and the detail of line 85, which says that the
  model has not been loaded yet, and the inference operation is not called (the
  history of calls is what it was).
\<close>

theorem not_ready_rejected:
  "fst (inference rt None req w) = Inl (HTTPException 503 detail_not_loaded)
   \<and> calls (snd (inference rt None req w)) = calls w"
  by (simp add: inference_def)

theorem not_ready_rejected_witness:
  "fst (inference cpython None request0 world0) = Inl (HTTPException 503 detail_not_loaded)
   \<and> calls (snd (inference cpython None request0 world0)) = []"
  using not_ready_rejected [of cpython request0 world0] by (simp add: world0_def)

text \<open>
  C6, as stated, fails: an agent that raises after leaving the stored audio file in
  a state in which the process cannot delete it gets its 500 with the message, and
  the scratch directory is still there after the response, with that file in it.
\<close>

theorem agent_exception_cleanup_counterexample:
  "fst (inference cpython (Some agent_raising_locking) request0 world0) =
     Inl (HTTPException 500 (detail_error_prefix @ ''CUDA out of memory''))
   \<and> path_exists (fs (snd (inference cpython (Some agent_raising_locking) request0 world0)))
       ''/tmp/tmpk3v9x2qa''
   \<and> lookup (root (fs (snd (inference cpython (Some agent_raising_locking) request0 world0))))
       [''tmp'', ''tmpk3v9x2qa''] = Some (Dir [(''speech.wav'', File ''RIFF'')])"
  by code_simp

text \<open>
  C6, amended. When the call of the agent raises \<open>e\<close>, the handler raises
  \<open>HTTPException\<close> with status 500 and the detail of line 142 followed by \<open>str(e)\<close>,
  and \<open>rmtree\<close> is run on the scratch directory as the agent left the file system,
  which is afterwards what \<open>rmtree\<close> leaves: when it succeeds the directory no longer
  exists; when it raises, the failure is printed after what the agent printed, and
  the directory may remain.
\<close>

theorem agent_exception_response:
  assumes "mkdtemp w = (Inr temp_dir, w1)"
    and "save_uploads req temp_dir (fs w1) = (Inr (ref_path, audio_path), s)"
    and "run_inference ag (make_args rt ag req (clock w) ref_path audio_path) s = (Inl e, s')"
  shows "fst (inference rt (Some ag) req w) =
           Inl (HTTPException 500 (detail_error_prefix @ exn_str rt e))
         \<and> fs (snd (inference rt (Some ag) req w)) = snd (rmtree s' temp_dir)
         \<and> (case fst (rmtree s' temp_dir) of
               Inr u \<Rightarrow>
                 \<not> path_exists (fs (snd (inference rt (Some ag) req w))) temp_dir
                 \<and> stdout (snd (inference rt (Some ag) req w)) =
                     stdout w
                       @ run_output ag (make_args rt ag req (clock w) ref_path audio_path) s
             | Inl e' \<Rightarrow>
                 stdout (snd (inference rt (Some ag) req w)) =
                   stdout w
                     @ run_output ag (make_args rt ag req (clock w) ref_path audio_path) s
                     @ [log_cleanup_prefix @ exn_str rt e'])"
proof -
  let ?a = "make_args rt ag req (clock w) ref_path audio_path"
  let ?w2 = "w1\<lparr>fs := s', stdout := stdout w @ run_output ag ?a s, calls := calls w @ [?a]\<rparr>"
  have "fs ?w2 = s'" and "stdout ?w2 = stdout w @ run_output ag ?a s"
    by simp_all
  then show ?thesis
    using inference_run [OF assms] finally_clause_cases [where w = ?w2 and t = temp_dir and rt = rt]
    by (auto simp: except_clause_def split: sum.splits prod.splits)
qed

theorem agent_exception_response_witness:
  "fst (inference cpython (Some agent_raising) request0 world0) =
     Inl (HTTPException 500 (detail_error_prefix @ ''CUDA out of memory''))
   \<and> \<not> path_exists (fs (snd (inference cpython (Some agent_raising) request0 world0)))
         ''/tmp/tmpk3v9x2qa''"
proof -
  let ?s = "snd (save_uploads request0 ''/tmp/tmpk3v9x2qa'' (fs (snd (mkdtemp world0))))"
  let ?args = "make_args cpython agent_raising request0 (clock world0)
                 ''/tmp/tmpk3v9x2qa/face.jpg'' ''/tmp/tmpk3v9x2qa/speech.wav''"
  have a: "run_inference agent_raising ?args ?s = (Inl (Exception ''CUDA out of memory''), ?s)"
    by (simp add: agent_raising_def)
  have d: "fst (rmtree ?s ''/tmp/tmpk3v9x2qa'') = Inr ()" by code_simp
  have r: "exn_str cpython (Exception ''CUDA out of memory'') = ''CUDA out of memory''"
    by (simp add: cpython_def cpython_exn_str_def)
  show ?thesis
    using agent_exception_response [OF world0_mkdtemp world0_uploads a] d r by auto
qed

text \<open>
  C7. When the call of the agent returns a path and that path exists, the handler
  returns a \<open>FileResponse\<close> for that path, with media type \<open>video/mp4\<close> and the base
  name of the path as download file name.
\<close>

theorem success_response:
  assumes "mkdtemp w = (Inr temp_dir, w1)"
    and "save_uploads req temp_dir (fs w1) = (Inr (ref_path, audio_path), s)"
    and "run_inference ag (make_args rt ag req (clock w) ref_path audio_path) s
           = (Inr result_path, s')"
    and "path_exists s' result_path"
  shows "fst (inference rt (Some ag) req w) =
         Inr (FileResponse result_path ''video/mp4'' (basename result_path))"
  using inference_run [OF assms(1,2,3)] assms(4) by (simp add: except_clause_def)

theorem success_response_witness:
  "fst (inference cpython (Some agent_ok) request0 world0) =
     Inr (FileResponse
       ''./results/2024-05-01T12-00-00-face-speech-nfe10-seed25-acfg2.0-ecfg1.0-S2E.mp4''
       ''video/mp4''
       ''2024-05-01T12-00-00-face-speech-nfe10-seed25-acfg2.0-ecfg1.0-S2E.mp4'')"
proof -
  let ?s = "snd (save_uploads request0 ''/tmp/tmpk3v9x2qa'' (fs (snd (mkdtemp world0))))"
  let ?args = "make_args cpython agent_ok request0 (clock world0)
                 ''/tmp/tmpk3v9x2qa/face.jpg'' ''/tmp/tmpk3v9x2qa/speech.wav''"
  let ?out = "''./results/2024-05-01T12-00-00-face-speech-nfe10-seed25-acfg2.0-ecfg1.0-S2E.mp4''"
  have "fst (run_inference agent_ok ?args ?s) = Inr ?out" by code_simp
  then have a: "run_inference agent_ok ?args ?s = (Inr ?out, snd (run_inference agent_ok ?args ?s))"
    by (cases "run_inference agent_ok ?args ?s") simp
  have e: "path_exists (snd (run_inference agent_ok ?args ?s)) ?out" by code_simp
  have b: "basename ?out = ''2024-05-01T12-00-00-face-speech-nfe10-seed25-acfg2.0-ecfg1.0-S2E.mp4''"
    by code_simp
  show ?thesis
    using success_response [OF world0_mkdtemp world0_uploads a e] b by simp
qed

text \<open>
  C8. A request rejected because the agent is \<open>None\<close> leaves the world as it was:
  the check of line 84 comes before \<open>mkdtemp\<close>, so no scratch directory is created
  and no file is written.
\<close>

theorem not_ready_no_side_effect:
  "snd (inference rt None req w) = w \<and> fs (snd (inference rt None req w)) = fs w"
  by (simp add: inference_def)

theorem not_ready_no_side_effect_witness:
  "\<not> path_exists (fs (snd (inference cpython None request0 world0))) (next_tmp world0)"
proof -
  have "\<not> path_exists (fs world0) (next_tmp world0)" by code_simp
  then show ?thesis using not_ready_no_side_effect [of cpython request0 world0] by simp
qed

text \<open>
  C9. Two requests that differ only in \<open>r_cfg_scale\<close> and \<open>no_crop\<close>, handled in the
  same world (the same clock included) with the same agent, hand the same output
  paths to the agent: neither field is part of the file name.
\<close>

theorem output_path_ignores_r_cfg_and_no_crop:
  "map arg_res_video_path
       (calls (snd (inference rt agent (req\<lparr>r_cfg_scale := x, no_crop := b\<rparr>) w))) =
   map arg_res_video_path (calls (snd (inference rt agent req w)))"
proof (cases agent)
  case None
  then show ?thesis by (simp add: inference_def)
next
  case (Some ag)
  obtain r1 w1 where m: "mkdtemp w = (r1, w1)" by (cases "mkdtemp w")
  show ?thesis
  proof (cases r1)
    case (Inl e)
    with m Some show ?thesis by (simp add: inference_def)
  next
    case (Inr temp_dir)
    with m have m': "mkdtemp w = (Inr temp_dir, w1)" by simp
    obtain ru s where u: "save_uploads req temp_dir (fs w1) = (ru, s)"
      by (cases "save_uploads req temp_dir (fs w1)")
    then have u': "save_uploads (req\<lparr>r_cfg_scale := x, no_crop := b\<rparr>) temp_dir (fs w1) = (ru, s)"
      by simp
    show ?thesis
    proof (cases ru)
      case (Inl e)
      with u u' Some show ?thesis
        using inference_calls_not_stored [OF m'] by simp
    next
      case (Inr paths)
      obtain ref_path audio_path where "paths = (ref_path, audio_path)" by (cases paths)
      with Inr u u' Some show ?thesis
        using inference_calls [OF m'] by (simp add: make_args_path)
    qed
  qed
qed

theorem output_path_ignores_r_cfg_and_no_crop_witness:
  "map arg_res_video_path
       (calls (snd (inference cpython (Some agent_ok)
          (request0\<lparr>r_cfg_scale := 7, no_crop := True\<rparr>) world0))) =
     [''./results/2024-05-01T12-00-00-face-speech-nfe10-seed25-acfg2.0-ecfg1.0-S2E.mp4'']
   \<and> map arg_res_video_path
       (calls (snd (inference cpython (Some agent_ok) request0 world0))) =
     [''./results/2024-05-01T12-00-00-face-speech-nfe10-seed25-acfg2.0-ecfg1.0-S2E.mp4'']"
proof -
  have "map arg_res_video_path
       (calls (snd (inference cpython (Some agent_ok) request0 world0))) =
     [''./results/2024-05-01T12-00-00-face-speech-nfe10-seed25-acfg2.0-ecfg1.0-S2E.mp4'']"
    by code_simp
  then show ?thesis
    using output_path_ignores_r_cfg_and_no_crop
      [where rt = cpython and agent = "Some agent_ok" and req = request0 and x = 7
        and b = True and w = world0]
    by simp
qed

text \<open>
  C10. The handler does not compare \<open>emo\<close> with the documented emotions: a request
  that reaches the call of the agent reaches it for every non-empty string \<open>e\<close> sent
  as \<open>emo\<close>; \<open>run_inference\<close> is applied to arguments whose emotion is \<open>e\<close> itself
  and whose output path carries \<open>e\<close> as its label, and the response of the handler
  is its answer to what the agent does with them.
\<close>

theorem emo_passed_verbatim:
  assumes "mkdtemp w = (Inr temp_dir, w1)"
    and "save_uploads req temp_dir (fs w1) = (Inr (ref_path, audio_path), s)"
    and "e \<noteq> []"
  shows "fst (inference rt (Some ag) (req\<lparr>emo := Some e\<rparr>) w) =
           response_to rt ag (agent_args rt ag req (clock w) ref_path audio_path e) s
         \<and> calls (snd (inference rt (Some ag) (req\<lparr>emo := Some e\<rparr>) w)) =
             calls w @ [agent_args rt ag req (clock w) ref_path audio_path e]"
proof -
  from assms(2) have u:
    "save_uploads (req\<lparr>emo := Some e\<rparr>) temp_dir (fs w1) = (Inr (ref_path, audio_path), s)"
    by simp
  have l: "make_args rt ag (req\<lparr>emo := Some e\<rparr>) (clock w) ref_path audio_path =
           agent_args rt ag req (clock w) ref_path audio_path e"
    using assms(3) by (simp add: make_args_def emotion_of_def)
  show ?thesis
    using inference_answer [OF assms(1) u, of rt ag] inference_calls [OF assms(1) u, of rt ag]
    unfolding l by blast
qed

theorem emo_passed_verbatim_witness:
  "\<not> List.member documented_emotions ''bored''
   \<and> fst (inference cpython (Some agent_ok) request_bored world0) =
     Inr (FileResponse
       ''./results/2024-05-01T12-00-00-face-speech-nfe10-seed25-acfg2.0-ecfg1.0-bored.mp4''
       ''video/mp4''
       ''2024-05-01T12-00-00-face-speech-nfe10-seed25-acfg2.0-ecfg1.0-bored.mp4'')
   \<and> map arg_emo (calls (snd (inference cpython (Some agent_ok) request_bored world0)))
       = [''bored'']"
proof -
  let ?s = "snd (save_uploads request0 ''/tmp/tmpk3v9x2qa'' (fs (snd (mkdtemp world0))))"
  have v: "\<not> List.member documented_emotions ''bored''" by code_simp
  have n: "''bored'' \<noteq> []" by simp
  have c: "calls world0 = []" by (simp add: world0_def)
  have r: "response_to cpython agent_ok
             (agent_args cpython agent_ok request0 (clock world0)
                ''/tmp/tmpk3v9x2qa/face.jpg'' ''/tmp/tmpk3v9x2qa/speech.wav'' ''bored'') ?s =
     Inr (FileResponse
       ''./results/2024-05-01T12-00-00-face-speech-nfe10-seed25-acfg2.0-ecfg1.0-bored.mp4''
       ''video/mp4''
       ''2024-05-01T12-00-00-face-speech-nfe10-seed25-acfg2.0-ecfg1.0-bored.mp4'')"
    by code_simp
  note t = emo_passed_verbatim [OF world0_mkdtemp world0_uploads n, of cpython agent_ok]
  from t r c have
    "fst (inference cpython (Some agent_ok) request_bored world0) =
       Inr (FileResponse
         ''./results/2024-05-01T12-00-00-face-speech-nfe10-seed25-acfg2.0-ecfg1.0-bored.mp4''
         ''video/mp4''
         ''2024-05-01T12-00-00-face-speech-nfe10-seed25-acfg2.0-ecfg1.0-bored.mp4'')
     \<and> map arg_emo (calls (snd (inference cpython (Some agent_ok) request_bored world0)))
         = [''bored'']"
    by (simp add: request_bored_def)
  with v show ?thesis by simp
qed

end
